theory Spec2Isabelle
  imports Main "HOL-Library.Char_ord" "HOL-Library.List_Lexorder"
begin

section \<open>Strings and paths\<close>

text \<open>
  Python strings are modelled as \<open>string\<close>.  The only case mapping the program uses is
  \<open>str.lower\<close> on a file suffix; the letters of the supported extensions have no
  non-ASCII upper-case form, so the ASCII mapping decides every comparison the program makes.
\<close>

definition lower_char :: "char \<Rightarrow> char" where
  "lower_char c =
     (case map_of (zip ''ABCDEFGHIJKLMNOPQRSTUVWXYZ'' ''abcdefghijklmnopqrstuvwxyz'') c of
        Some d \<Rightarrow> d
      | None \<Rightarrow> c)"

definition str_lower :: "string \<Rightarrow> string" where
  "str_lower s = map lower_char s"

text \<open>\<open>s.split(c)\<close>: the pieces between the occurrences of \<open>c\<close>, empty pieces kept.\<close>

fun split_on :: "char \<Rightarrow> string \<Rightarrow> string list" where
  "split_on c [] = [[]]"
| "split_on c (x # xs) =
     (if x = c then [] # split_on c xs
      else (case split_on c xs of [] \<Rightarrow> [[x]] | y # ys \<Rightarrow> (x # y) # ys))"

text \<open>\<open>sep.join(parts)\<close>.\<close>

fun join_with :: "string \<Rightarrow> string list \<Rightarrow> string" where
  "join_with sep [] = []"
| "join_with sep [p] = p"
| "join_with sep (p # q # ps) = p @ sep @ join_with sep (q # ps)"

text \<open>
  \<open>pathlib.PurePosixPath\<close>: a path is a root (\<open>''''\<close>, \<open>''/''\<close> or \<open>''//''\<close>) and the list of
  its components, with empty components and \<open>.\<close> dropped.  \<open>path_str\<close> is \<open>str(Path(p))\<close>.
\<close>

definition path_root :: "string \<Rightarrow> string" where
  "path_root p =
     (if take 2 p = ''//'' \<and> take 3 p \<noteq> ''///'' then ''//''
      else if take 1 p = ''/'' then ''/'' else '''')"

definition path_parts :: "string \<Rightarrow> string list" where
  "path_parts p = filter (\<lambda>s. s \<noteq> [] \<and> s \<noteq> ''.'') (split_on CHR ''/'' p)"

definition render :: "string \<Rightarrow> string list \<Rightarrow> string" where
  "render r ps = (if r = [] \<and> ps = [] then ''.'' else r @ join_with ''/'' ps)"

definition path_str :: "string \<Rightarrow> string" where
  "path_str p = render (path_root p) (path_parts p)"

text \<open>\<open>Path(p).name\<close>: the last component, or the empty string when there is none.\<close>

definition path_name :: "string \<Rightarrow> string" where
  "path_name p = (case path_parts p of [] \<Rightarrow> [] | q # qs \<Rightarrow> last (q # qs))"

text \<open>\<open>s.rfind(c)\<close>: the index of the last occurrence, or \<open>-1\<close>.\<close>

definition rfind :: "string \<Rightarrow> char \<Rightarrow> int" where
  "rfind s c =
     (if c \<in> set s
      then int (length s) - 1 - int (length (takeWhile (\<lambda>x. x \<noteq> c) (rev s)))
      else - 1)"

text \<open>
  \<open>Path(p).suffix\<close> and \<open>Path(p).stem\<close> (Python up to 3.13): the name is cut at its last
  dot unless that dot is the first or the last character of the name.
\<close>

definition path_suffix :: "string \<Rightarrow> string" where
  "path_suffix p =
     (let name = path_name p; i = rfind name CHR ''.''
      in if 0 < i \<and> i < int (length name) - 1 then drop (nat i) name else [])"

definition path_stem :: "string \<Rightarrow> string" where
  "path_stem p =
     (let name = path_name p; i = rfind name CHR ''.''
      in if 0 < i \<and> i < int (length name) - 1 then take (nat i) name else name)"

section \<open>Configuration: \<open>CLIConfig\<close>\<close>

text \<open>The class attribute \<open>SUPPORTED_EXTENSIONS\<close>, a dict in insertion order.\<close>

definition SUPPORTED_EXTENSIONS :: "(string \<times> string list) list" where
  "SUPPORTED_EXTENSIONS =
     [(''excel'', [''.xlsx'', ''.xls'']),
      (''word'', [''.docx'', ''.doc'']),
      (''powerpoint'', [''.pptx'', ''.ppt''])]"

definition MAX_FILE_SIZE_MB :: nat where
  "MAX_FILE_SIZE_MB = 100"

definition get_all_supported_extensions :: "string list" where
  "get_all_supported_extensions = concat (map snd SUPPORTED_EXTENSIONS)"

text \<open>The \<open>for doc_type, extensions in ...items()\<close> loop of \<open>detect_document_type\<close>.\<close>

fun detect_loop :: "string \<Rightarrow> (string \<times> string list) list \<Rightarrow> string" where
  "detect_loop e [] = ''unknown''"
| "detect_loop e ((doc_type, extensions) # rest) =
     (if e \<in> set extensions then doc_type else detect_loop e rest)"

definition detect_document_type :: "string \<Rightarrow> string" where
  "detect_document_type file_path =
     detect_loop (str_lower (path_suffix file_path)) SUPPORTED_EXTENSIONS"

definition is_supported_file :: "string \<Rightarrow> bool" where
  "is_supported_file file_path \<longleftrightarrow>
     str_lower (path_suffix file_path) \<in> set get_all_supported_extensions"

section \<open>Classification\<close>

lemma detect_loop_range:
  "detect_loop e SUPPORTED_EXTENSIONS \<in> {''excel'', ''word'', ''powerpoint'', ''unknown''}"
  by (simp add: SUPPORTED_EXTENSIONS_def)

text \<open>
  Claim C8.  \<open>detect_document_type\<close> (the spec's \<open>classify\<close>) is a total function of the
  path string with no failure branch: when the lower-cased suffix of the path is in the
  extension list of an entry of \<open>SUPPORTED_EXTENSIONS\<close> it returns that entry's type, when
  it is in no entry's list it returns \<open>unknown\<close>, and it returns nothing but the three types
  and \<open>unknown\<close>.
\<close>

theorem detect_document_type_owning_type:
  "(\<forall>(doc_type, extensions) \<in> set SUPPORTED_EXTENSIONS.
      str_lower (path_suffix file_path) \<in> set extensions \<longrightarrow>
      detect_document_type file_path = doc_type)
   \<and> ((\<forall>(doc_type, extensions) \<in> set SUPPORTED_EXTENSIONS.
         str_lower (path_suffix file_path) \<notin> set extensions) \<longrightarrow>
       detect_document_type file_path = ''unknown'')
   \<and> detect_document_type file_path \<in> {''excel'', ''word'', ''powerpoint'', ''unknown''}"
proof (intro conjI)
  show "\<forall>(doc_type, extensions) \<in> set SUPPORTED_EXTENSIONS.
      str_lower (path_suffix file_path) \<in> set extensions \<longrightarrow>
      detect_document_type file_path = doc_type"
    by (auto simp: detect_document_type_def SUPPORTED_EXTENSIONS_def)
  show "(\<forall>(doc_type, extensions) \<in> set SUPPORTED_EXTENSIONS.
         str_lower (path_suffix file_path) \<notin> set extensions) \<longrightarrow>
       detect_document_type file_path = ''unknown''"
    by (simp add: detect_document_type_def SUPPORTED_EXTENSIONS_def)
  show "detect_document_type file_path \<in> {''excel'', ''word'', ''powerpoint'', ''unknown''}"
    unfolding detect_document_type_def by (rule detect_loop_range)
qed

lemma suffix_Report_XLSX: "str_lower (path_suffix ''docs/Report.XLSX'') = ''.xlsx''"
  by (simp add: path_suffix_def path_name_def path_parts_def rfind_def str_lower_def
      lower_char_def Let_def)

lemma suffix_notes_txt: "str_lower (path_suffix ''docs/notes.txt'') = ''.txt''"
  by (simp add: path_suffix_def path_name_def path_parts_def rfind_def str_lower_def
      lower_char_def Let_def)

theorem detect_document_type_owning_type_witness:
  "detect_document_type ''docs/Report.XLSX'' = ''excel''
   \<and> detect_document_type ''docs/notes.txt'' = ''unknown''"
proof
  have m: "(''excel'', [''.xlsx'', ''.xls'']) \<in> set SUPPORTED_EXTENSIONS"
    by (simp add: SUPPORTED_EXTENSIONS_def)
  have "\<forall>(doc_type, extensions) \<in> set SUPPORTED_EXTENSIONS.
      str_lower (path_suffix ''docs/Report.XLSX'') \<in> set extensions \<longrightarrow>
      detect_document_type ''docs/Report.XLSX'' = doc_type"
    using detect_document_type_owning_type [of "''docs/Report.XLSX''"] by (rule conjunct1)
  with m show "detect_document_type ''docs/Report.XLSX'' = ''excel''"
    by (auto simp: suffix_Report_XLSX)
next
  have n: "\<forall>(doc_type, extensions) \<in> set SUPPORTED_EXTENSIONS.
         str_lower (path_suffix ''docs/notes.txt'') \<notin> set extensions"
    by (simp add: SUPPORTED_EXTENSIONS_def suffix_notes_txt)
  have "(\<forall>(doc_type, extensions) \<in> set SUPPORTED_EXTENSIONS.
         str_lower (path_suffix ''docs/notes.txt'') \<notin> set extensions) \<longrightarrow>
       detect_document_type ''docs/notes.txt'' = ''unknown''"
    using detect_document_type_owning_type [of "''docs/notes.txt''"] by blast
  with n show "detect_document_type ''docs/notes.txt'' = ''unknown''"
    by (rule rev_mp)
qed

section \<open>The file system\<close>

text \<open>
  The file system as the operating system of a POSIX host keeps it.  A location is the list of
  names that leads from the root directory to a node; \<open>entries\<close> is a finite table from
  locations to nodes, a lookup taking the first entry for a location, and the root directory
  always exists.  \<open>cwd\<close> is the location of the working directory of the process and
  \<open>free_space\<close> the number of bytes the volume can still take.  Symbolic links and
  permissions are not represented.
\<close>

datatype fnode = RegFile string | Directory

record filesystem =
  entries :: "(string list \<times> fnode) list"
  cwd :: "string list"
  free_space :: nat

datatype errno = ENOENT | EEXIST | ENOTDIR | EISDIR | ENOSPC | ENAMETOOLONG

text \<open>
  The exceptions of the program: those it raises itself, the \<open>OSError\<close> of a system call with
  its error number, and \<open>Exception\<close> for whatever else a converter or the post-processor
  raises.
\<close>

datatype exn =
  ValueError string | NotImplementedError | OSError errno | UnboundLocalError | Exception string

definition node_at :: "filesystem \<Rightarrow> string list \<Rightarrow> fnode option" where
  "node_at fs loc = (if loc = [] then Some Directory else map_of (entries fs) loc)"

definition NAME_MAX :: nat where
  "NAME_MAX = 255"

definition PATH_MAX :: nat where
  "PATH_MAX = 4096"

text \<open>
  Path resolution: from the location \<open>loc\<close> the names are followed one by one.  Each step needs
  \<open>loc\<close> to be a directory; \<open>..\<close> leads to the parent (the root is its own parent), and a name
  of more than \<open>NAME_MAX\<close> bytes is refused.  Whether the location reached holds a node is left
  to the caller.
\<close>

fun walk :: "filesystem \<Rightarrow> string list \<Rightarrow> string list \<Rightarrow> errno + string list" where
  "walk fs loc [] = Inr loc"
| "walk fs loc (c # cs) =
     (case node_at fs loc of
        None \<Rightarrow> Inl ENOENT
      | Some (RegFile content) \<Rightarrow> Inl ENOTDIR
      | Some Directory \<Rightarrow>
          if c = ''..'' then walk fs (butlast loc) cs
          else if NAME_MAX < length c then Inl ENAMETOOLONG
          else walk fs (loc @ [c]) cs)"

text \<open>
  A \<open>pathlib.Path\<close> object is its root and its components; \<open>str_of\<close> is \<open>str(path)\<close>, the
  string handed to the system calls.
\<close>

type_synonym ppath = "string \<times> string list"

definition Path :: "string \<Rightarrow> ppath" where
  "Path p = (path_root p, path_parts p)"

definition str_of :: "ppath \<Rightarrow> string" where
  "str_of p = render (fst p) (snd p)"

definition parent :: "ppath \<Rightarrow> ppath" where
  "parent p = (fst p, butlast (snd p))"

text \<open>
  \<open>path / name\<close> for a name that is a single component: the names joined below are the stem
  of a path followed by an extension with a dot, which hold no slash and are neither empty nor
  \<open>.\<close> (lemma \<open>path_parts_output_name\<close>).
\<close>

definition path_child :: "ppath \<Rightarrow> string \<Rightarrow> ppath" where
  "path_child p name = (fst p, snd p @ [name])"

text \<open>A relative path is resolved from the working directory, an absolute one from the root.\<close>

definition start :: "filesystem \<Rightarrow> ppath \<Rightarrow> string list" where
  "start fs p = (if fst p = [] then cwd fs else [])"

text \<open>
  \<open>os.stat(path)\<close>: a string with a null byte is refused by Python before the call
  (\<open>ValueError\<close>), one of \<open>PATH_MAX\<close> bytes or more by the system.
\<close>

definition os_stat :: "filesystem \<Rightarrow> ppath \<Rightarrow> exn + fnode" where
  "os_stat fs p =
     (if CHR 0x00 \<in> set (str_of p) then Inl (ValueError ''embedded null byte'')
      else if PATH_MAX \<le> length (str_of p) then Inl (OSError ENAMETOOLONG)
      else case walk fs (start fs p) (snd p) of
             Inl e \<Rightarrow> Inl (OSError e)
           | Inr loc \<Rightarrow>
               (case node_at fs loc of
                  None \<Rightarrow> Inl (OSError ENOENT)
                | Some node \<Rightarrow> Inr node))"

text \<open>
  \<open>Path.exists\<close>, \<open>Path.is_file\<close> and \<open>Path.is_dir\<close> answer \<open>False\<close> when \<open>stat\<close> fails with
  \<open>ENOENT\<close> or \<open>ENOTDIR\<close> (of the error numbers \<open>pathlib._ignore_error\<close> lists, those that can
  arise here) or with a \<open>ValueError\<close>; any other error of \<open>stat\<close> is raised again.
\<close>

fun ignore_error :: "exn \<Rightarrow> bool" where
  "ignore_error (OSError e) = (e = ENOENT \<or> e = ENOTDIR)"
| "ignore_error (ValueError m) = True"
| "ignore_error e = False"

definition path_exists :: "filesystem \<Rightarrow> ppath \<Rightarrow> exn + bool" where
  "path_exists fs p =
     (case os_stat fs p of
        Inl e \<Rightarrow> if ignore_error e then Inr False else Inl e
      | Inr node \<Rightarrow> Inr True)"

definition path_is_file :: "filesystem \<Rightarrow> ppath \<Rightarrow> exn + bool" where
  "path_is_file fs p =
     (case os_stat fs p of
        Inl e \<Rightarrow> if ignore_error e then Inr False else Inl e
      | Inr node \<Rightarrow> Inr (case node of RegFile content \<Rightarrow> True | Directory \<Rightarrow> False))"

definition path_is_dir :: "filesystem \<Rightarrow> ppath \<Rightarrow> exn + bool" where
  "path_is_dir fs p =
     (case os_stat fs p of
        Inl e \<Rightarrow> if ignore_error e then Inr False else Inl e
      | Inr node \<Rightarrow> Inr (case node of RegFile content \<Rightarrow> False | Directory \<Rightarrow> True))"

text \<open>
  \<open>os.mkdir(path)\<close>: the directory that is to hold the new name must exist; the name must be
  new.
\<close>

definition os_mkdir :: "filesystem \<Rightarrow> ppath \<Rightarrow> exn + filesystem" where
  "os_mkdir fs p =
     (if CHR 0x00 \<in> set (str_of p) then Inl (ValueError ''embedded null byte'')
      else if PATH_MAX \<le> length (str_of p) then Inl (OSError ENAMETOOLONG)
      else if snd p = [] then Inl (OSError EEXIST)
      else case walk fs (start fs p) (butlast (snd p)) of
             Inl e \<Rightarrow> Inl (OSError e)
           | Inr loc \<Rightarrow>
               (case node_at fs loc of
                  None \<Rightarrow> Inl (OSError ENOENT)
                | Some (RegFile content) \<Rightarrow> Inl (OSError ENOTDIR)
                | Some Directory \<Rightarrow>
                    if last (snd p) = ''..'' then Inl (OSError EEXIST)
                    else if NAME_MAX < length (last (snd p)) then Inl (OSError ENAMETOOLONG)
                    else if node_at fs (loc @ [last (snd p)]) \<noteq> None then Inl (OSError EEXIST)
                    else Inr (fs\<lparr>entries := (loc @ [last (snd p)], Directory) # entries fs\<rparr>)))"

text \<open>
  \<open>Path.mkdir(parents=False, exist_ok=True)\<close>: an \<open>OSError\<close> of \<open>os.mkdir\<close> other than
  \<open>FileNotFoundError\<close> is dropped when the path is a directory.  The result is the exception
  raised, if any, and the file system left behind.
\<close>

definition mkdir_exist_ok :: "filesystem \<Rightarrow> ppath \<Rightarrow> exn option \<times> filesystem" where
  "mkdir_exist_ok fs p =
     (case os_mkdir fs p of
        Inr fs' \<Rightarrow> (None, fs')
      | Inl (OSError ENOENT) \<Rightarrow> (Some (OSError ENOENT), fs)
      | Inl (OSError e) \<Rightarrow>
          (case path_is_dir fs p of
             Inl e' \<Rightarrow> (Some e', fs)
           | Inr False \<Rightarrow> (Some (OSError e), fs)
           | Inr True \<Rightarrow> (None, fs))
      | Inl e \<Rightarrow> (Some e, fs))"

text \<open>
  \<open>Path.mkdir(parents=True, exist_ok=True)\<close>: on \<open>FileNotFoundError\<close> the parent is made in the
  same way and then the path itself with \<open>parents=False\<close>; a path that is its own parent
  raises.  What an ancestor call created stays when a later step raises.
\<close>

function mkdir_parents :: "filesystem \<Rightarrow> ppath \<Rightarrow> exn option \<times> filesystem" where
  "mkdir_parents fs p =
     (case os_mkdir fs p of
        Inr fs' \<Rightarrow> (None, fs')
      | Inl (OSError ENOENT) \<Rightarrow>
          if snd p = [] then (Some (OSError ENOENT), fs)
          else (case mkdir_parents fs (parent p) of
                  (Some e, fs') \<Rightarrow> (Some e, fs')
                | (None, fs') \<Rightarrow> mkdir_exist_ok fs' p)
      | Inl (OSError e) \<Rightarrow>
          (case path_is_dir fs p of
             Inl e' \<Rightarrow> (Some e', fs)
           | Inr False \<Rightarrow> (Some (OSError e), fs)
           | Inr True \<Rightarrow> (None, fs))
      | Inl e \<Rightarrow> (Some e, fs))"
  by pat_completeness auto

termination mkdir_parents
  by (relation "measure (\<lambda>(fs, p). length (snd p))") (auto simp: parent_def)

declare mkdir_parents.simps [simp del]

text \<open>\<open>str(int)\<close> for the non-negative counters of the program.\<close>

definition digit_char :: "nat \<Rightarrow> char" where
  "digit_char d = ''0123456789'' ! d"

fun str_nat :: "nat \<Rightarrow> string" where
  "str_nat n = (if n < 10 then [digit_char n] else str_nat (n div 10) @ [digit_char (n mod 10)])"

declare str_nat.simps [simp del]

lemma digit_char_inj: "a < 10 \<Longrightarrow> b < 10 \<Longrightarrow> digit_char a = digit_char b \<Longrightarrow> a = b"
  unfolding digit_char_def
  by (subst (asm) nth_eq_iff_index_eq) simp_all

lemma str_nat_nonempty: "str_nat n \<noteq> []"
  by (subst str_nat.simps) simp

lemma str_nat_inj: "str_nat n = str_nat m \<Longrightarrow> n = m"
proof (induction n arbitrary: m rule: str_nat.induct)
  case (1 n)
  show ?case
  proof (cases "n < 10")
    case True
    show ?thesis
    proof (cases "m < 10")
      case m: True
      with True "1.prems" show ?thesis
        by (simp add: str_nat.simps [of n] str_nat.simps [of m] digit_char_inj)
    next
      case m: False
      with True "1.prems" str_nat_nonempty [of "m div 10"] show ?thesis
        by (simp add: str_nat.simps [of n] str_nat.simps [of m])
    qed
  next
    case False
    show ?thesis
    proof (cases "m < 10")
      case m: True
      with False "1.prems" str_nat_nonempty [of "n div 10"] show ?thesis
        by (simp add: str_nat.simps [of n] str_nat.simps [of m])
    next
      case m: False
      with False "1.prems" have e: "str_nat (n div 10) = str_nat (m div 10)"
        and d: "digit_char (n mod 10) = digit_char (m mod 10)"
        by (simp_all add: str_nat.simps [of n] str_nat.simps [of m])
      from "1.IH" [OF False e] have "n div 10 = m div 10" .
      moreover from d have "n mod 10 = m mod 10"
        by (rule digit_char_inj [rotated 2]) simp_all
      ultimately show ?thesis
        by (metis div_mult_mod_eq)
    qed
  qed
qed

section \<open>Output paths: \<open>FileHandler.create_output_path\<close>\<close>

definition format_ext :: "string \<Rightarrow> string" where
  "format_ext output_format =
     (if output_format = ''markdown'' then ''.md''
      else if output_format = ''html'' then ''.html''
      else if output_format = ''json'' then ''.json''
      else ''.txt'')"

lemma walk_append:
  "walk fs loc (xs @ ys) = (case walk fs loc xs of Inl e \<Rightarrow> Inl e | Inr l \<Rightarrow> walk fs l ys)"
  by (induction xs arbitrary: loc) (auto split: option.splits fnode.splits)

lemma walk_snoc_found:
  assumes "walk fs loc (xs @ [n]) = Inr l"
  shows "\<exists>d. walk fs loc xs = Inr d \<and> node_at fs d = Some Directory
           \<and> (if n = ''..'' then l = butlast d else l = d @ [n] \<and> length n \<le> NAME_MAX)"
  using assms
  by (auto simp: walk_append split: sum.splits option.splits fnode.splits if_splits)

lemma path_exists_child_entry:
  assumes ex: "path_exists fs (path_child p n) = Inr True" and n: "n \<noteq> ''..''"
  shows "\<exists>d. walk fs (start fs p) (snd p) = Inr d \<and> map_of (entries fs) (d @ [n]) \<noteq> None"
proof -
  from ex obtain l where l: "walk fs (start fs p) (snd p @ [n]) = Inr l"
    and node: "node_at fs l \<noteq> None"
    by (auto simp: path_exists_def os_stat_def path_child_def start_def
        split: if_splits sum.splits option.splits)
  from walk_snoc_found [OF l] n obtain d where "walk fs (start fs p) (snd p) = Inr d" "l = d @ [n]"
    by auto
  with node show ?thesis by (auto simp: node_at_def)
qed

text \<open>
  The \<open>while output_file.exists()\<close> loop.  It ends because the numbered names are pairwise
  different and the table is finite.
\<close>

function name_loop ::
  "filesystem \<Rightarrow> ppath \<Rightarrow> string \<Rightarrow> string \<Rightarrow> ppath \<Rightarrow> nat \<Rightarrow> exn + ppath" where
  "name_loop fs output_path base_name ext output_file counter =
     (case path_exists fs output_file of
        Inl e \<Rightarrow> Inl e
      | Inr False \<Rightarrow> Inr output_file
      | Inr True \<Rightarrow>
          name_loop fs output_path base_name ext
            (path_child output_path (base_name @ ''_'' @ str_nat counter @ ext)) (counter + 1))"
  by pat_completeness auto

lemma numbered_not_dotdot: "b @ ''_'' @ s @ e \<noteq> ''..''"
proof
  assume "b @ ''_'' @ s @ e = ''..''"
  then have "set (b @ ''_'' @ s @ e) = set ''..''" by (rule arg_cong)
  then show False by auto
qed

lemma numbered_finite:
  "finite {k. path_exists fs (path_child p (b @ ''_'' @ str_nat k @ e)) = Inr True}"
proof -
  let ?n = "\<lambda>k. b @ ''_'' @ str_nat k @ e"
  obtain d where d: "walk fs (start fs p) (snd p) = Inr d \<or> (\<forall>l. walk fs (start fs p) (snd p) \<noteq> Inr l)"
    by (cases "walk fs (start fs p) (snd p)") auto
  let ?f = "\<lambda>k. d @ [?n k]"
  have "inj ?f"
    by (rule injI) (auto dest!: str_nat_inj)
  moreover have "finite (dom (map_of (entries fs)))"
    by (rule finite_dom_map_of)
  ultimately have "finite (?f -` dom (map_of (entries fs)))"
    by (rule finite_vimageI [rotated])
  moreover have "{k. path_exists fs (path_child p (?n k)) = Inr True} \<subseteq> ?f -` dom (map_of (entries fs))"
  proof
    fix k assume "k \<in> {k. path_exists fs (path_child p (?n k)) = Inr True}"
    then have "path_exists fs (path_child p (?n k)) = Inr True" by simp
    from path_exists_child_entry [OF this numbered_not_dotdot] d
    show "k \<in> ?f -` dom (map_of (entries fs))" by auto
  qed
  ultimately show ?thesis by (rule finite_subset [rotated])
qed

termination name_loop
proof (relation "measure (\<lambda>(fs, p, b, e, f, c).
    if path_exists fs f = Inr True
    then Suc (card {k. c \<le> k \<and> path_exists fs (path_child p (b @ ''_'' @ str_nat k @ e)) = Inr True})
    else 0)", goal_cases)
  case 1
  show ?case by simp
next
  case (2 fs p b e f c x)
  let ?S = "\<lambda>c. {k. c \<le> k \<and> path_exists fs (path_child p (b @ ''_'' @ str_nat k @ e)) = Inr True}"
  have fin: "finite (?S c)"
    by (rule finite_subset [OF _ numbered_finite [of fs p b e]]) auto
  have "card (?S (c + 1)) < card (?S c)"
    if "path_exists fs (path_child p (b @ ''_'' @ str_nat c @ e)) = Inr True"
  proof (rule psubset_card_mono [OF fin])
    from that have "c \<in> ?S c" by simp
    moreover have "c \<notin> ?S (c + 1)" by simp
    moreover have "?S (c + 1) \<subseteq> ?S c" by auto
    ultimately show "?S (c + 1) \<subset> ?S c" by blast
  qed
  with 2 show ?case by auto
qed

declare name_loop.simps [simp del]

text \<open>
  \<open>create_output_path\<close>: the result is the path returned or the exception raised, together
  with the file system that \<open>mkdir\<close> leaves.
\<close>

definition create_output_path ::
  "filesystem \<Rightarrow> string \<Rightarrow> string \<Rightarrow> string \<Rightarrow> (exn + string) \<times> filesystem" where
  "create_output_path fs input_file output_dir output_format =
     (let output_path = Path output_dir
      in case mkdir_parents fs output_path of
           (Some e, fs') \<Rightarrow> (Inl e, fs')
         | (None, fs') \<Rightarrow>
             (let base_name = path_stem input_file;
                  ext = format_ext output_format;
                  output_file = path_child output_path (base_name @ ext)
              in (case name_loop fs' output_path base_name ext output_file 1 of
                    Inl e \<Rightarrow> Inl e
                  | Inr found \<Rightarrow> Inr (str_of found), fs')))"

subsection \<open>Directories made by \<open>mkdir\<close>\<close>





lemma os_mkdir_entries:
  assumes "os_mkdir fs p = Inr fs'"
  shows "\<exists>k. fs' = fs\<lparr>entries := (k, Directory) # entries fs\<rparr> \<and> node_at fs k = None"
  using assms
  by (auto simp: os_mkdir_def Let_def split: if_splits sum.splits option.splits fnode.splits)








subsection \<open>The candidates and the one returned\<close>

text \<open>
  The candidates in the order the loop examines them: number 0 is \<open>output_dir/stem.ext\<close>,
  number \<open>k > 0\<close> is \<open>output_dir/stem_k.ext\<close>.
\<close>

definition candidate :: "string \<Rightarrow> string \<Rightarrow> string \<Rightarrow> nat \<Rightarrow> ppath" where
  "candidate output_dir input_file output_format k =
     path_child (Path output_dir)
       (path_stem input_file @ (if k = 0 then [] else ''_'' @ str_nat k) @ format_ext output_format)"








section \<open>Saving: \<open>FileHandler.save_output\<close>\<close>





subsection \<open>Paths and their strings\<close>

definition plain_name :: "string \<Rightarrow> bool" where
  "plain_name n \<longleftrightarrow> n \<noteq> [] \<and> n \<noteq> ''.'' \<and> CHR ''/'' \<notin> set n"

lemma split_on_nonempty: "split_on c s \<noteq> []"
  by (induction s) (auto split: list.splits)


lemma split_on_plain: "c \<notin> set n \<Longrightarrow> split_on c n = [n]"
  by (induction n) auto

lemma split_on_pieces: "x \<in> set (split_on c s) \<Longrightarrow> c \<notin> set x"
proof (induction s arbitrary: x)
  case Nil
  then show ?case by simp
next
  case (Cons a s)
  show ?case
  proof (cases "a = c")
    case True
    with Cons show ?thesis by auto
  next
    case False
    from split_on_nonempty [of c s] obtain y ys where y: "split_on c s = y # ys"
      by (cases "split_on c s") auto
    with False Cons.prems have "x = a # y \<or> x \<in> set ys" by simp
    then show ?thesis
    proof
      assume "x = a # y"
      moreover from y have "c \<notin> set y" by (intro Cons.IH) simp
      ultimately show ?thesis using False by simp
    next
      assume "x \<in> set ys"
      with y show ?thesis by (intro Cons.IH) simp
    qed
  qed
qed

lemma path_parts_plain_name: "x \<in> set (path_parts s) \<Longrightarrow> plain_name x"
  by (auto simp: path_parts_def plain_name_def dest: split_on_pieces)







lemma digit_char_not_slash: "d < 10 \<Longrightarrow> digit_char d \<noteq> CHR ''/''"
proof -
  assume "d < 10"
  then have "digit_char d \<in> set ''0123456789''"
    unfolding digit_char_def by (intro nth_mem) simp
  then show ?thesis by auto
qed

lemma str_nat_no_slash: "CHR ''/'' \<notin> set (str_nat n)"
proof (induction n rule: str_nat.induct)
  case (1 n)
  show ?case
  proof (cases "n < 10")
    case True
    then show ?thesis
      using digit_char_not_slash [of n] by (simp add: str_nat.simps [of n])
  next
    case False
    with 1 show ?thesis
      using digit_char_not_slash [of "n mod 10"] by (simp add: str_nat.simps [of n])
  qed
qed

lemma path_name_no_slash: "CHR ''/'' \<notin> set (path_name p)"
proof (cases "path_parts p")
  case Nil
  then show ?thesis by (simp add: path_name_def)
next
  case (Cons q qs)
  then have "last (q # qs) \<in> set (path_parts p)"
    by (metis last_in_set list.distinct(1))
  then have "plain_name (last (q # qs))" by (rule path_parts_plain_name)
  with Cons show ?thesis by (simp add: path_name_def plain_name_def)
qed

lemma path_stem_no_slash: "CHR ''/'' \<notin> set (path_stem p)"
  using path_name_no_slash [of p]
  by (auto simp: path_stem_def Let_def dest: in_set_takeD)

lemma format_ext_cases: "format_ext f \<in> {''.md'', ''.html'', ''.json'', ''.txt''}"
  by (simp add: format_ext_def)

text \<open>
  The names \<open>create_output_path\<close> appends are single components, so that \<open>/\<close> appends them
  as \<open>path_child\<close> does.
\<close>

lemma plain_output_name:
  "plain_name (path_stem i @ (if k = 0 then [] else ''_'' @ str_nat k) @ format_ext f)"
  using path_stem_no_slash [of i] str_nat_no_slash [of k] format_ext_cases [of f]
  by (auto simp: plain_name_def Cons_eq_append_conv append_eq_Cons_conv)

lemma path_parts_output_name:
  "path_root (path_stem i @ (if k = 0 then [] else ''_'' @ str_nat k) @ format_ext f) = []
   \<and> path_parts (path_stem i @ (if k = 0 then [] else ''_'' @ str_nat k) @ format_ext f) =
       [path_stem i @ (if k = 0 then [] else ''_'' @ str_nat k) @ format_ext f]"
proof -
  let ?n = "path_stem i @ (if k = 0 then [] else ''_'' @ str_nat k) @ format_ext f"
  have p: "plain_name ?n" by (rule plain_output_name)
  then have "path_parts ?n = [?n]"
    by (simp add: path_parts_def plain_name_def split_on_plain)
  moreover from p have "path_root ?n = []"
    by (cases ?n) (auto simp: plain_name_def path_root_def)
  ultimately show ?thesis by simp
qed

subsection \<open>Existence of a name in a directory\<close>








subsection \<open>Successive calls\<close>









section \<open>Output paths never name an existing file\<close>


subsection \<open>Examples\<close>

text \<open>
  A working directory (the root, for short) with the input \<open>docs/report.xlsx\<close>, an output
  directory \<open>out\<close> that already holds \<open>report.md\<close>, and a regular file \<open>notes\<close>.
\<close>

definition example_fs :: filesystem where
  "example_fs =
     \<lparr>entries = [([''docs''], Directory), ([''docs'', ''report.xlsx''], RegFile ''PK''),
                 ([''out''], Directory), ([''out'', ''report.md''], RegFile ''old''),
                 ([''notes''], RegFile ''to do'')],
      cwd = [], free_space = 1000\<rparr>"

lemma Path_out: "Path ''out'' = ([], [''out''])"
  by (simp add: Path_def path_root_def path_parts_def)

lemma Path_notes: "Path ''notes'' = ([], [''notes''])"
  by (simp add: Path_def path_root_def path_parts_def)

lemma stem_report: "path_stem ''docs/report.xlsx'' = ''report''"
  by (simp add: path_stem_def path_name_def path_parts_def rfind_def Let_def)




lemma str_of_out_child: "str_of (path_child (Path ''out'') n) = ''out/'' @ n"
  by (simp add: Path_out path_child_def str_of_def render_def)


lemma example_names:
  "map (\<lambda>k. str_of (candidate ''out'' ''docs/report.xlsx'' ''markdown'' k)) [1..<1 + 3] =
     [''out/report_1.md'', ''out/report_2.md'', ''out/report_3.md'']"
  by (simp add: candidate_def str_of_out_child stem_report format_ext_def upt_conv_Cons
      str_nat.simps digit_char_def)


lemma example_dotdot:
  "fst (create_output_path example_fs ''docs/report.xlsx'' ''build/../out'' ''markdown'') =
     Inr ''build/../out/report_1.md''"
  by code_simp



end
